theory Spec2Isabelle
  imports Main
begin

section \<open>JavaScript values and completions\<close>

text \<open>
  The values that travel through the handlers are JSON documents, plus JavaScript's
  \<open>undefined\<close>, which a destructuring of a missing property produces. An object is the
  list of its properties; its keys are distinct, as they are after \<open>JSON.parse\<close>.
\<close>

datatype jsval =
    JUndefined
  | JNull
  | JBool bool
  | JNum int
  | JStr string
  | JArr "jsval list"
  | JObj "(string \<times> jsval) list"

type_synonym row = "(string \<times> jsval) list"

text \<open>
  A statement either completes normally with a value or throws. Every \<open>catch (err)\<close> of the
  sources only reads \<open>err.message\<close>, so a thrown error is its message.
\<close>

datatype 'a completion = Normal 'a | Throw string

text \<open>Reading a property: a missing property, or a property of a primitive, is \<open>undefined\<close>.\<close>

fun get_prop :: "jsval \<Rightarrow> string \<Rightarrow> jsval" where
  "get_prop (JObj kvs) k = (case map_of kvs k of Some v \<Rightarrow> v | None \<Rightarrow> JUndefined)"
| "get_prop _ k = JUndefined"

text \<open>
  \<open>const { a, b } = v\<close> throws a \<open>TypeError\<close> when \<open>v\<close> is \<open>undefined\<close> or \<open>null\<close>;
  otherwise each name is bound to the property read from \<open>v\<close>. \<open>k\<close> is the first name.
\<close>

definition destructure :: "jsval \<Rightarrow> string \<Rightarrow> unit completion" where
  "destructure v k =
     (if v = JUndefined then
        Throw (''Cannot destructure property '' @ k @ '' of req.body as it is undefined.'')
      else if v = JNull then
        Throw (''Cannot destructure property '' @ k @ '' of req.body as it is null.'')
      else Normal ())"

text \<open>
  An identifier that no declaration binds throws a \<open>ReferenceError\<close> when it is evaluated.
  A module's scope is the list of the names its top level declares, on top of the names
  Node.js gives every module.
\<close>

definition node_globals :: "string list" where
  "node_globals = [''require'', ''module'', ''exports'', ''__filename'', ''__dirname'',
     ''process'', ''console'', ''Buffer'', ''global'', ''globalThis'']"

definition ident :: "string list \<Rightarrow> string \<Rightarrow> unit completion" where
  "ident scope x =
     (if x \<in> set (scope @ node_globals) then Normal () else Throw (x @ '' is not defined''))"

section \<open>Tokens\<close>

text \<open>
  Assigning to a property of an object replaces its value in place, or adds the property at
  the end.
\<close>

fun assign :: "row \<Rightarrow> string \<Rightarrow> jsval \<Rightarrow> row" where
  "assign [] a v = [(a, v)]"
| "assign ((b, u) # r) a v = (if a = b then (a, v) # r else (b, u) # assign r a v)"

text \<open>
  A signed token is kept symbolic: its claims, and the signature as the pair of the key and
  of the claims it was computed over.

  \<open>jwt.sign(payload, secret, { expiresIn })\<close> refuses a missing secret, a payload whose
  \<open>iat\<close>, \<open>exp\<close> or \<open>nbf\<close> is not a number, and a payload with an \<open>exp\<close> of its own next to
  \<open>expiresIn\<close>. The time stamp is the \<open>iat\<close> of the payload when it carries one (and it is
  not zero), the current time otherwise; the token gets the payload (properties that are
  \<open>undefined\<close> are not serialised), the time stamp as \<open>iat\<close>, and the time stamp plus
  \<open>expiresIn\<close> as \<open>exp\<close>.
\<close>

datatype token = Token (claims: row) (signature: "string \<times> row")

definition bad_claim :: "row \<Rightarrow> string option" where
  "bad_claim pay =
     (case List.find
             (\<lambda>a. case map_of pay a of None \<Rightarrow> False | Some (JNum n) \<Rightarrow> False | Some v \<Rightarrow> True)
             [''iat'', ''exp'', ''nbf''] of
        Some a \<Rightarrow> Some (a @ '' should be a number of seconds'')
      | None \<Rightarrow> None)"

definition timestamp :: "row \<Rightarrow> nat \<Rightarrow> int" where
  "timestamp pay now =
     (case map_of pay ''iat'' of Some (JNum i) \<Rightarrow> if i = 0 then int now else i | _ \<Rightarrow> int now)"

definition jwt_sign :: "row \<Rightarrow> jsval \<Rightarrow> nat \<Rightarrow> nat \<Rightarrow> token completion" where
  "jwt_sign payload secretOrPrivateKey expiresIn now =
     (case secretOrPrivateKey of
        JStr k \<Rightarrow>
          if k = [] then Throw ''secretOrPrivateKey must have a value''
          else
            (case bad_claim payload of
               Some m \<Rightarrow> Throw m
             | None \<Rightarrow>
                 if map_of payload ''exp'' \<noteq> None then
                   Throw ''Bad options.expiresIn option the payload already has an exp property.''
                 else
                   let ts = timestamp payload now;
                       cs = assign
                              (assign (filter (\<lambda>(a, v). v \<noteq> JUndefined) payload)
                                 ''iat'' (JNum ts))
                              ''exp'' (JNum (ts + int expiresIn))
                   in Normal (Token cs (k, cs)))
      | _ \<Rightarrow> Throw ''secretOrPrivateKey must have a value'')"

text \<open>\<open>expiresIn: '1h'\<close> in seconds.\<close>

definition one_hour :: nat where
  "one_hour = 60 * 60"

text \<open>
  \<open>jwt.verify\<close>: the signature must be the one the secret gives on the claims carried; an
  \<open>nbf\<close> must be a number that is not in the future, an \<open>exp\<close> a number that is.
\<close>

definition not_before_ok :: "row \<Rightarrow> nat \<Rightarrow> bool" where
  "not_before_ok cs now =
     (case map_of cs ''nbf'' of None \<Rightarrow> True | Some (JNum b) \<Rightarrow> b \<le> int now | Some v \<Rightarrow> False)"

definition not_expired :: "row \<Rightarrow> nat \<Rightarrow> bool" where
  "not_expired cs now =
     (case map_of cs ''exp'' of None \<Rightarrow> True | Some (JNum e) \<Rightarrow> int now < e | Some v \<Rightarrow> False)"

definition jwt_verify :: "token \<Rightarrow> string option \<Rightarrow> nat \<Rightarrow> row option" where
  "jwt_verify t secret now =
     (case secret of
        None \<Rightarrow> None
      | Some k \<Rightarrow>
          if k \<noteq> [] \<and> signature t = (k, claims t)
               \<and> not_before_ok (claims t) now \<and> not_expired (claims t) now
          then Some (claims t)
          else None)"

section \<open>The token script\<close>

text \<open>
  The script binds \<open>jwt\<close>, \<open>crypto\<close>, \<open>accessTokenSecret\<close>, \<open>generateAccessToken\<close>, \<open>user\<close> and
  \<open>accessToken\<close>, and nothing else.
\<close>

definition token_js_scope :: "string list" where
  "token_js_scope = [''jwt'', ''crypto'', ''accessTokenSecret'', ''generateAccessToken'',
     ''user'', ''accessToken'']"

definition generateAccessToken :: "string \<Rightarrow> nat \<Rightarrow> row \<Rightarrow> token completion" where
  "generateAccessToken accessTokenSecret now payload =
     jwt_sign payload (JStr accessTokenSecret) one_hour now"

text \<open>
  \<open>process.env.ACCESS_TOKEN_SECRET || generateAccessTokenSecret()\<close>: the right operand is
  evaluated when the variable is unset or empty. \<open>generated\<close> is what the call would return
  if the name were bound.
\<close>

definition accessTokenSecret :: "(string \<rightharpoonup> string) \<Rightarrow> string \<Rightarrow> string completion" where
  "accessTokenSecret env generated =
     (case env ''ACCESS_TOKEN_SECRET'' of
        Some s \<Rightarrow>
          if s \<noteq> [] then Normal s
          else (case ident token_js_scope ''generateAccessTokenSecret'' of
                  Throw m \<Rightarrow> Throw m | Normal _ \<Rightarrow> Normal generated)
      | None \<Rightarrow>
          (case ident token_js_scope ''generateAccessTokenSecret'' of
             Throw m \<Rightarrow> Throw m | Normal _ \<Rightarrow> Normal generated))"

text \<open>The whole script, up to the token it logs.\<close>

definition token_js :: "(string \<rightharpoonup> string) \<Rightarrow> string \<Rightarrow> nat \<Rightarrow> token completion" where
  "token_js env generated now =
     (case accessTokenSecret env generated of
        Throw m \<Rightarrow> Throw m
      | Normal secret \<Rightarrow>
          generateAccessToken secret now [(''id'', JNum 123), (''username'', JStr ''example_user'')])"

section \<open>The models\<close>

datatype entity = Resource | User | DID | Document | DocumentTransaction

text \<open>
  What \<open>sequelize.define\<close> is given for each model: its name, the primary key with its type
  (\<open>Sequelize.INTEGER\<close> or \<open>Sequelize.STRING\<close>) and whether it is generated, and the columns.
  The columns are the declared attributes and the foreign key that the model's \<open>belongsTo\<close>
  association adds (\<open>DIDID\<close>, \<open>OwnerID\<close>, \<open>DocumentID\<close>). The types of the other columns
  and the time stamps that the library maintains on its own are left out.
\<close>

datatype key_type = INTEGER | STRING

record model =
  modelName :: string
  primaryKey :: string
  keyType :: key_type
  autoIncrement :: bool
  attributes :: "string list"

fun model_of :: "entity \<Rightarrow> model" where
  "model_of User = \<lparr>modelName = ''User'', primaryKey = ''UserID'', keyType = INTEGER,
     autoIncrement = True,
     attributes = [''UserID'', ''Name'', ''Email'', ''PhoneNumber'', ''LoginPIN'',
       ''DateOfBirth'', ''AadhaarNumber'', ''PANNumber'', ''UserImage'']\<rparr>"
| "model_of DID = \<lparr>modelName = ''DID'', primaryKey = ''ID'', keyType = STRING,
     autoIncrement = False,
     attributes = [''ID'', ''Controller'', ''Created'', ''Updated'', ''DIDDocument'']\<rparr>"
| "model_of Resource = \<lparr>modelName = ''Resource'', primaryKey = ''ResourceID'',
     keyType = STRING, autoIncrement = False,
     attributes = [''ResourceID'', ''Payload'', ''DIDID'']\<rparr>"
| "model_of Document = \<lparr>modelName = ''Document'', primaryKey = ''DocumentID'',
     keyType = INTEGER, autoIncrement = True,
     attributes = [''DocumentID'', ''Content'', ''Created'', ''Updated'', ''OwnerID'']\<rparr>"
| "model_of DocumentTransaction = \<lparr>modelName = ''DocumentTransaction'',
     primaryKey = ''TransactionID'', keyType = INTEGER, autoIncrement = True,
     attributes = [''TransactionID'', ''TransactionData'', ''DocumentID'']\<rparr>"

section \<open>The store and the calls of the mapping layer\<close>

text \<open>
  A table is the list of its rows, in insertion order, and the next generated key. A row
  lists the columns that hold a value; a column that is missing is SQL \<open>NULL\<close>.
\<close>

record table =
  rows :: "row list"
  serial :: nat

type_synonym store = "entity \<Rightarrow> table"

definition column :: "row \<Rightarrow> string \<Rightarrow> jsval" where
  "column r a = (case map_of r a of Some v \<Rightarrow> v | None \<Rightarrow> JNull)"

text \<open>Numbers as decimal text, and back.\<close>

fun digits :: "nat \<Rightarrow> string" where
  "digits n =
     (if n < 10 then [''0123456789'' ! n] else digits (n div 10) @ [''0123456789'' ! (n mod 10)])"

declare digits.simps [simp del]

definition int_text :: "int \<Rightarrow> string" where
  "int_text n = (if n < 0 then CHR ''-'' # digits (nat (- n)) else digits (nat n))"

definition digit_value :: "char \<Rightarrow> nat option" where
  "digit_value c = map_of (zip ''0123456789'' [0, 1, 2, 3, 4, 5, 6, 7, 8, 9]) c"

fun nat_of_digits :: "nat \<Rightarrow> string \<Rightarrow> nat option" where
  "nat_of_digits acc [] = Some acc"
| "nat_of_digits acc (c # cs) =
     (case digit_value c of None \<Rightarrow> None | Some d \<Rightarrow> nat_of_digits (10 * acc + d) cs)"

text \<open>
  The database reads an integer from text as optional white space, an optional sign, at
  least one decimal digit, and optional white space.
\<close>

definition is_space :: "char \<Rightarrow> bool" where
  "is_space c = (c \<in> set [CHR 0x20, CHR 0x09, CHR 0x0A, CHR 0x0B, CHR 0x0C, CHR 0x0D])"

definition trim :: "string \<Rightarrow> string" where
  "trim s = rev (dropWhile is_space (rev (dropWhile is_space s)))"

definition int_of_text :: "string \<Rightarrow> int option" where
  "int_of_text s =
     (case trim s of
        [] \<Rightarrow> None
      | c # cs \<Rightarrow>
          if c = CHR ''-'' then
            (if cs = [] then None else map_option (\<lambda>n. - int n) (nat_of_digits 0 cs))
          else if c = CHR ''+'' then
            (if cs = [] then None else map_option int (nat_of_digits 0 cs))
          else map_option int (nat_of_digits 0 (c # cs)))"

text \<open>
  How the database reads a value as a key of a column's type. An \<open>INTEGER\<close> is a number of
  32 bits: text is parsed, and text that is no integer is an error of the query. A
  \<open>STRING\<close> takes text as it is and a number as its decimal text.
\<close>

definition in_int4 :: "int \<Rightarrow> bool" where
  "in_int4 n = (- 2147483648 \<le> n \<and> n \<le> 2147483647)"

fun coerce :: "key_type \<Rightarrow> jsval \<Rightarrow> jsval completion" where
  "coerce INTEGER (JNum n) =
     (if in_int4 n then Normal (JNum n) else Throw ''integer out of range'')"
| "coerce INTEGER (JStr s) =
     (case int_of_text s of
        None \<Rightarrow> Throw (''invalid input syntax for type integer: '' @ s)
      | Some n \<Rightarrow>
          if in_int4 n then Normal (JNum n)
          else Throw (''value '' @ s @ '' is out of range for type integer''))"
| "coerce INTEGER v = Throw ''invalid input syntax for type integer''"
| "coerce STRING (JStr s) = Normal (JStr s)"
| "coerce STRING (JNum n) = Normal (JStr (int_text n))"
| "coerce STRING v = Throw ''string violation: the key cannot be an array or an object''"

text \<open>
  A row has the key \<open>k\<close> when its primary key column holds \<open>k\<close>. A row answers to the
  identifier of a path when the database reads the identifier as its key; nothing answers
  to an identifier that it cannot read. The text of a row's key is its identifier.
\<close>

definition has_key :: "entity \<Rightarrow> jsval \<Rightarrow> row \<Rightarrow> bool" where
  "has_key e k r = (map_of r (primaryKey (model_of e)) = Some k)"

definition answers :: "entity \<Rightarrow> string \<Rightarrow> row \<Rightarrow> bool" where
  "answers e i r =
     (case coerce (keyType (model_of e)) (JStr i) of
        Normal k \<Rightarrow> has_key e k r
      | Throw m \<Rightarrow> False)"

fun key_text :: "jsval \<Rightarrow> string option" where
  "key_text (JStr s) = Some s"
| "key_text (JNum n) = Some (int_text n)"
| "key_text _ = None"

definition row_key :: "entity \<Rightarrow> row \<Rightarrow> string option" where
  "row_key e r =
     (case map_of r (primaryKey (model_of e)) of Some v \<Rightarrow> key_text v | None \<Rightarrow> None)"

text \<open>
  What the environment decides for one request: the process environment, the time in
  seconds, and for each storage call of the request (numbered from 0) whether the storage
  layer rejects it and with which message: a lost connection, or a constraint or a
  validation rule that the tables here do not carry.
\<close>

record conditions =
  env :: "string \<rightharpoonup> string"
  clock :: nat
  rejects :: "nat \<Rightarrow> string option"

text \<open>
  \<open>Model.build\<close>: the values of the model's columns, in the model's order; a property that
  is not a column is dropped, and so is one that is \<open>undefined\<close>.
\<close>

definition build :: "entity \<Rightarrow> jsval \<Rightarrow> row" where
  "build e vals =
     List.map_filter
       (\<lambda>a. case get_prop vals a of JUndefined \<Rightarrow> None | v \<Rightarrow> Some (a, v))
       (attributes (model_of e))"

text \<open>
  \<open>Model.create\<close>: the key is the table's next number when the model generates keys and
  none is given. A row without a key, with a key that the column's type does not take, with
  a text key of more than 255 characters, or with the key of a stored row is refused. The
  row is stored, and returned, with the key as the database holds it.
\<close>

definition create :: "string option \<Rightarrow> entity \<Rightarrow> store \<Rightarrow> jsval \<Rightarrow> (row \<times> store) completion" where
  "create rejected e st vals =
     (case rejected of
        Some m \<Rightarrow> Throw m
      | None \<Rightarrow>
          let pk = primaryKey (model_of e);
              t = st e;
              given = build e vals;
              generated = (autoIncrement (model_of e) \<and> column given pk = JNull);
              v = (if generated then JNum (int (serial t)) else column given pk)
          in if v = JNull then
               Throw (modelName (model_of e) @ ''.'' @ pk @ '' cannot be null'')
             else
               (case coerce (keyType (model_of e)) v of
                  Throw m \<Rightarrow> Throw m
                | Normal k \<Rightarrow>
                    if keyType (model_of e) = STRING
                         \<and> 255 < length (case key_text k of Some i \<Rightarrow> i | None \<Rightarrow> []) then
                      Throw ''value too long for type character varying(255)''
                    else
                      (case List.find (has_key e k) (rows t) of
                         Some x \<Rightarrow> Throw ''Validation error''
                       | None \<Rightarrow>
                           let r = (pk, k) # filter (\<lambda>(a, u). a \<noteq> pk) given
                           in Normal (r, st(e := \<lparr>rows = rows t @ [r],
                                 serial = (if generated then Suc (serial t)
                                           else serial t)\<rparr>)))))"

definition findAll :: "string option \<Rightarrow> entity \<Rightarrow> store \<Rightarrow> row list completion" where
  "findAll rejected e st =
     (case rejected of Some m \<Rightarrow> Throw m | None \<Rightarrow> Normal (rows (st e)))"

text \<open>
  \<open>Model.findByPk\<close>: the identifier goes to the database as text, which reads it as a key
  of the column's type or fails the query; the first row with that key is the result.
\<close>

definition findByPk :: "string option \<Rightarrow> entity \<Rightarrow> store \<Rightarrow> string \<Rightarrow> row option completion" where
  "findByPk rejected e st i =
     (case rejected of
        Some m \<Rightarrow> Throw m
      | None \<Rightarrow>
          (case coerce (keyType (model_of e)) (JStr i) of
             Throw m \<Rightarrow> Throw m
           | Normal k \<Rightarrow> Normal (List.find (has_key e k) (rows (st e)))))"

text \<open>
  \<open>instance.update\<close>: the columns given replace those of the instance; the key of a stored
  instance is never reassigned. The row is written back in its place.
\<close>

definition update :: "string option \<Rightarrow> entity \<Rightarrow> store \<Rightarrow> row \<Rightarrow> jsval \<Rightarrow> (row \<times> store) completion" where
  "update rejected e st inst vals =
     (case rejected of
        Some m \<Rightarrow> Throw m
      | None \<Rightarrow>
          let pk = primaryKey (model_of e);
              changes = filter (\<lambda>(a, v). a \<noteq> pk) (build e vals);
              r = fold (\<lambda>(a, v) x. assign x a v) changes inst
          in Normal (r, st(e := (st e)\<lparr>rows :=
                          map (\<lambda>x. if map_of x pk = map_of inst pk then r else x)
                            (rows (st e))\<rparr>)))"

text \<open>\<open>instance.destroy\<close>: the row of the instance leaves its table.\<close>

definition destroy :: "string option \<Rightarrow> entity \<Rightarrow> store \<Rightarrow> row \<Rightarrow> store completion" where
  "destroy rejected e st inst =
     (case rejected of
        Some m \<Rightarrow> Throw m
      | None \<Rightarrow>
          Normal (st(e := (st e)\<lparr>rows :=
                    filter (\<lambda>x. map_of x (primaryKey (model_of e))
                                   \<noteq> map_of inst (primaryKey (model_of e)))
                      (rows (st e))\<rparr>)))"

text \<open>
  \<open>Model.findOne({ where: { k: v } })\<close>. A value that is \<open>undefined\<close> is refused before any
  query is made. A name that is an attribute is that column; any other name goes to the
  database as it is, quoted, and the table that the model defines has no such column.
\<close>

definition findOne ::
  "string option \<Rightarrow> entity \<Rightarrow> store \<Rightarrow> string \<Rightarrow> jsval \<Rightarrow> row option completion" where
  "findOne rejected e st k v =
     (if v = JUndefined then
        Throw (''WHERE parameter '' @ k @ '' has invalid undefined value'')
      else
        (case rejected of
           Some m \<Rightarrow> Throw m
         | None \<Rightarrow>
             if k \<in> set (attributes (model_of e)) then
               Normal (List.find (\<lambda>r. column r k = v) (rows (st e)))
             else
               Throw (''column '' @ modelName (model_of e) @ ''.'' @ k @ '' does not exist'')))"

section \<open>Requests and responses\<close>

datatype http_method = GET | POST | PUT | DELETE

text \<open>
  The authorization header, when present, either carries a bearer token or something else.
\<close>

datatype authorization = Bearer token | Other string

text \<open>
  \<open>rpath\<close> is the request path split at its slashes; \<open>params_id\<close> is \<open>req.params.id\<close>, which
  the router fills in; \<open>body\<close> is \<open>req.body\<close> as the JSON body parser leaves it; \<open>user\<close> is
  where the middleware leaves the claims of the token.
\<close>

record request =
  rmethod :: http_method
  rpath :: "string list"
  authorization :: "authorization option"
  body :: jsval
  params_id :: string
  user :: "row option"

text \<open>
  A response body is empty (\<open>send()\<close>), a JSON document (\<open>json(v)\<close>), the object \<open>{ token }\<close>
  around an issued token, or the page of the framework for a path that no route serves.
\<close>

datatype payload = Empty | Json jsval | TokenJson token | Html string

record response =
  status :: nat
  payload :: payload

definition json :: "nat \<Rightarrow> jsval \<Rightarrow> response" where
  "json s v = \<lparr>status = s, payload = Json v\<rparr>"

definition error_json :: "nat \<Rightarrow> string \<Rightarrow> response" where
  "error_json s m = json s (JObj [(''error'', JStr m)])"

section \<open>The handlers for the five entities\<close>

text \<open>
  Each entity has the same five handlers; they differ in the model they call and in the
  message of the 404 response.
\<close>

fun not_found :: "entity \<Rightarrow> string" where
  "not_found Resource = ''Resource not found''"
| "not_found User = ''User not found''"
| "not_found DID = ''DID not found''"
| "not_found Document = ''Document not found''"
| "not_found DocumentTransaction = ''DocumentTransaction not found''"

definition create_handler :: "entity \<Rightarrow> conditions \<Rightarrow> store \<Rightarrow> request \<Rightarrow> response \<times> store" where
  "create_handler e w st req =
     (case create (rejects w 0) e st (body req) of
        Normal (r, st') \<Rightarrow> (json 201 (JObj r), st')
      | Throw m \<Rightarrow> (error_json 400 m, st))"

definition list_handler :: "entity \<Rightarrow> conditions \<Rightarrow> store \<Rightarrow> request \<Rightarrow> response \<times> store" where
  "list_handler e w st req =
     (case findAll (rejects w 0) e st of
        Normal rs \<Rightarrow> (json 200 (JArr (map JObj rs)), st)
      | Throw m \<Rightarrow> (error_json 500 m, st))"

definition get_handler :: "entity \<Rightarrow> conditions \<Rightarrow> store \<Rightarrow> request \<Rightarrow> response \<times> store" where
  "get_handler e w st req =
     (case findByPk (rejects w 0) e st (params_id req) of
        Normal (Some r) \<Rightarrow> (json 200 (JObj r), st)
      | Normal None \<Rightarrow> (error_json 404 (not_found e), st)
      | Throw m \<Rightarrow> (error_json 500 m, st))"

definition update_handler :: "entity \<Rightarrow> conditions \<Rightarrow> store \<Rightarrow> request \<Rightarrow> response \<times> store" where
  "update_handler e w st req =
     (case findByPk (rejects w 0) e st (params_id req) of
        Normal (Some r) \<Rightarrow>
          (case update (rejects w 1) e st r (body req) of
             Normal (r', st') \<Rightarrow> (json 200 (JObj r'), st')
           | Throw m \<Rightarrow> (error_json 400 m, st))
      | Normal None \<Rightarrow> (error_json 404 (not_found e), st)
      | Throw m \<Rightarrow> (error_json 400 m, st))"

definition delete_handler :: "entity \<Rightarrow> conditions \<Rightarrow> store \<Rightarrow> request \<Rightarrow> response \<times> store" where
  "delete_handler e w st req =
     (case findByPk (rejects w 0) e st (params_id req) of
        Normal (Some r) \<Rightarrow>
          (case destroy (rejects w 1) e st r of
             Normal st' \<Rightarrow> (\<lparr>status = 204, payload = Empty\<rparr>, st')
           | Throw m \<Rightarrow> (error_json 500 m, st))
      | Normal None \<Rightarrow> (error_json 404 (not_found e), st)
      | Throw m \<Rightarrow> (error_json 500 m, st))"

section \<open>Registration and login\<close>

text \<open>The names that the top level of the server module binds.\<close>

definition index_js_scope :: "string list" where
  "index_js_scope = [''express'', ''bodyParser'', ''User'', ''Resource'',
     ''DocumentTransaction'', ''DID'', ''Document'', ''setupSwagger'', ''authenticateJWT'',
     ''app'', ''PORT'']"

text \<open>
  The two handlers name \<open>bcrypt\<close>, which the module does not bind. The parameter below is
  what \<open>bcrypt.hash\<close> and \<open>bcrypt.compare\<close> would do if a binding supplied them.
\<close>

record bcrypt_module =
  hash :: "jsval \<Rightarrow> nat \<Rightarrow> jsval completion"
  compare :: "jsval \<Rightarrow> jsval \<Rightarrow> bool completion"

definition register :: "bcrypt_module \<Rightarrow> conditions \<Rightarrow> store \<Rightarrow> request \<Rightarrow> response \<times> store" where
  "register bcrypt w st req =
     (case destructure (body req) ''name'' of
        Throw m \<Rightarrow> (error_json 400 m, st)
      | Normal _ \<Rightarrow>
          let name = get_prop (body req) ''name'';
              email = get_prop (body req) ''email'';
              password = get_prop (body req) ''password''
          in (case ident index_js_scope ''bcrypt'' of
                Throw m \<Rightarrow> (error_json 400 m, st)
              | Normal _ \<Rightarrow>
                  (case hash bcrypt password 10 of
                     Throw m \<Rightarrow> (error_json 400 m, st)
                   | Normal hashedPassword \<Rightarrow>
                       (case create (rejects w 0) User st
                               (JObj [(''name'', name), (''email'', email),
                                      (''password'', hashedPassword)]) of
                          Normal (u, st') \<Rightarrow> (json 201 (JObj u), st')
                        | Throw m \<Rightarrow> (error_json 400 m, st)))))"

definition login :: "bcrypt_module \<Rightarrow> conditions \<Rightarrow> store \<Rightarrow> request \<Rightarrow> response \<times> store" where
  "login bcrypt w st req =
     (case destructure (body req) ''email'' of
        Throw m \<Rightarrow> (error_json 400 m, st)
      | Normal _ \<Rightarrow>
          let email = get_prop (body req) ''email'';
              password = get_prop (body req) ''password''
          in (case findOne (rejects w 0) User st ''email'' email of
                Throw m \<Rightarrow> (error_json 400 m, st)
              | Normal None \<Rightarrow> (error_json 400 ''Invalid email or password.'', st)
              | Normal (Some u) \<Rightarrow>
                  (case ident index_js_scope ''bcrypt'' of
                     Throw m \<Rightarrow> (error_json 400 m, st)
                   | Normal _ \<Rightarrow>
                       (case compare bcrypt password (get_prop (JObj u) ''password'') of
                          Throw m \<Rightarrow> (error_json 400 m, st)
                        | Normal False \<Rightarrow> (error_json 400 ''Invalid email or password.'', st)
                        | Normal True \<Rightarrow>
                            (case ident index_js_scope ''jwt'' of
                               Throw m \<Rightarrow> (error_json 400 m, st)
                             | Normal _ \<Rightarrow>
                                 (case jwt_sign
                                         [(''id'', get_prop (JObj u) ''id''),
                                          (''email'', get_prop (JObj u) ''email'')]
                                         (case env w ''JWT_SECRET'' of
                                            Some s \<Rightarrow> JStr s | None \<Rightarrow> JUndefined)
                                         one_hour (clock w) of
                                    Throw m \<Rightarrow> (error_json 400 m, st)
                                  | Normal t \<Rightarrow>
                                      (\<lparr>status = 200, payload = TokenJson t\<rparr>, st)))))))"

section \<open>The middleware\<close>

text \<open>
  Modelled from the spec: the module \<open>middleware/auth\<close> that the server requires as
  \<open>authenticateJWT\<close> is not among the sources. The specification has it take the bearer
  token from the authorization header; reject a request without the header with 401, the
  request going no further; verify a token that is there, and on success attach the claims
  to the request and let it proceed; reject it otherwise with a 401 or 403 (403 here). The
  secret is the one of the process configuration, and no body is specified for a rejection.
\<close>

datatype verdict = Rejected response | Authenticated request

definition authenticateJWT :: "conditions \<Rightarrow> request \<Rightarrow> verdict" where
  "authenticateJWT w req =
     (case authorization req of
        None \<Rightarrow> Rejected \<lparr>status = 401, payload = Empty\<rparr>
      | Some (Other s) \<Rightarrow> Rejected \<lparr>status = 403, payload = Empty\<rparr>
      | Some (Bearer t) \<Rightarrow>
          (case jwt_verify t (env w ''JWT_SECRET'') (clock w) of
             Some cs \<Rightarrow> Authenticated (req\<lparr>user := Some cs\<rparr>)
           | None \<Rightarrow> Rejected \<lparr>status = 403, payload = Empty\<rparr>))"

section \<open>The routes\<close>

datatype operation =
    OpCreate entity
  | OpList entity
  | OpGet entity
  | OpUpdate entity
  | OpDelete entity
  | OpRegister
  | OpLogin

fun handler ::
  "bcrypt_module \<Rightarrow> operation \<Rightarrow> conditions \<Rightarrow> store \<Rightarrow> request \<Rightarrow> response \<times> store" where
  "handler bcrypt (OpCreate e) = create_handler e"
| "handler bcrypt (OpList e) = list_handler e"
| "handler bcrypt (OpGet e) = get_handler e"
| "handler bcrypt (OpUpdate e) = update_handler e"
| "handler bcrypt (OpDelete e) = delete_handler e"
| "handler bcrypt OpRegister = register bcrypt"
| "handler bcrypt OpLogin = login bcrypt"

text \<open>
  The routes in the order the server registers them: the verb, the path pattern, whether
  \<open>authenticateJWT\<close> stands before the handler, and the handler.
\<close>

definition routes :: "(http_method \<times> string list \<times> bool \<times> operation) list" where
  "routes =
    [(POST, [''resources''], True, OpCreate Resource),
     (GET, [''resources''], True, OpList Resource),
     (GET, [''resources'', '':id''], True, OpGet Resource),
     (PUT, [''resources'', '':id''], True, OpUpdate Resource),
     (DELETE, [''resources'', '':id''], True, OpDelete Resource),
     (POST, [''users''], True, OpCreate User),
     (GET, [''users''], True, OpList User),
     (GET, [''users'', '':id''], True, OpGet User),
     (PUT, [''users'', '':id''], True, OpUpdate User),
     (DELETE, [''users'', '':id''], True, OpDelete User),
     (POST, [''dids''], True, OpCreate DID),
     (GET, [''dids''], True, OpList DID),
     (GET, [''dids'', '':id''], True, OpGet DID),
     (PUT, [''dids'', '':id''], True, OpUpdate DID),
     (DELETE, [''dids'', '':id''], True, OpDelete DID),
     (POST, [''documents''], True, OpCreate Document),
     (GET, [''documents''], True, OpList Document),
     (GET, [''documents'', '':id''], True, OpGet Document),
     (PUT, [''documents'', '':id''], True, OpUpdate Document),
     (DELETE, [''documents'', '':id''], True, OpDelete Document),
     (POST, [''documenttransactions''], False, OpCreate DocumentTransaction),
     (GET, [''documenttransactions''], False, OpList DocumentTransaction),
     (GET, [''documenttransactions'', '':id''], False, OpGet DocumentTransaction),
     (PUT, [''documenttransactions'', '':id''], False, OpUpdate DocumentTransaction),
     (DELETE, [''documenttransactions'', '':id''], False, OpDelete DocumentTransaction),
     (POST, [''register''], False, OpRegister),
     (POST, [''login''], False, OpLogin)]"

text \<open>A pattern serves a path of the same length; \<open>:id\<close> stands for any segment.\<close>

fun matches :: "string list \<Rightarrow> string list \<Rightarrow> bool" where
  "matches [] [] = True"
| "matches (p # ps) (s # ss) = ((p = '':id'' \<and> s \<noteq> [] \<or> p = s) \<and> matches ps ss)"
| "matches _ _ = False"

fun capture :: "string list \<Rightarrow> string list \<Rightarrow> string" where
  "capture (p # ps) (s # ss) = (if p = '':id'' then s else capture ps ss)"
| "capture _ _ = []"

definition serves :: "request \<Rightarrow> http_method \<times> string list \<times> bool \<times> operation \<Rightarrow> bool" where
  "serves req rt = (fst rt = rmethod req \<and> matches (fst (snd rt)) (rpath req))"

fun verb :: "http_method \<Rightarrow> string" where
  "verb GET = ''GET''"
| "verb POST = ''POST''"
| "verb PUT = ''PUT''"
| "verb DELETE = ''DELETE''"

text \<open>
  The first route that serves the request takes it; a request that no route serves gets the
  framework's 404 page. \<open>h\<close> is what runs for a route's
  handler; the server is \<open>dispatch\<close> over the handlers above.
\<close>

definition dispatch ::
  "(operation \<Rightarrow> conditions \<Rightarrow> store \<Rightarrow> request \<Rightarrow> response \<times> store) \<Rightarrow>
     conditions \<Rightarrow> store \<Rightarrow> request \<Rightarrow> response \<times> store" where
  "dispatch h w st req =
     (case List.find (serves req) routes of
        None \<Rightarrow>
          (\<lparr>status = 404,
            payload = Html (''Cannot '' @ verb (rmethod req) @ '' ''
                             @ concat (map (\<lambda>s. CHR ''/'' # s) (rpath req)))\<rparr>, st)
      | Some (m, pat, guarded, opn) \<Rightarrow>
          let req' = req\<lparr>params_id := capture pat (rpath req)\<rparr>
          in if guarded then
               (case authenticateJWT w req' of
                  Rejected res \<Rightarrow> (res, st)
                | Authenticated req'' \<Rightarrow> h opn w st req'')
             else h opn w st req')"

definition app :: "bcrypt_module \<Rightarrow> conditions \<Rightarrow> store \<Rightarrow> request \<Rightarrow> response \<times> store" where
  "app bcrypt = dispatch (handler bcrypt)"

text \<open>The entity a route works on; registration and login have none.\<close>

fun entity_of :: "operation \<Rightarrow> entity option" where
  "entity_of (OpCreate e) = Some e"
| "entity_of (OpList e) = Some e"
| "entity_of (OpGet e) = Some e"
| "entity_of (OpUpdate e) = Some e"
| "entity_of (OpDelete e) = Some e"
| "entity_of OpRegister = None"
| "entity_of OpLogin = None"

section \<open>Sample data\<close>

text \<open>
  A store with nothing in it, as the synchronisation script leaves it; a store with one
  user; conditions under which the storage layer rejects nothing, rejects every call, and
  rejects the second call of a request; a request and a hashing module to start from.
\<close>

definition empty_store :: store where
  "empty_store = (\<lambda>e. \<lparr>rows = [], serial = 1\<rparr>)"

definition one_user :: store where
  "one_user = empty_store(User := \<lparr>rows = [[(''UserID'', JNum 1), (''Name'', JStr ''A''),
      (''Email'', JStr ''a@x.com'')]], serial = 2\<rparr>)"

definition calm :: conditions where
  "calm = \<lparr>env = Map.empty, clock = 0, rejects = (\<lambda>n. None)\<rparr>"

definition outage :: conditions where
  "outage = \<lparr>env = Map.empty, clock = 0,
     rejects = (\<lambda>n. Some ''Connection terminated unexpectedly'')\<rparr>"

definition refused_write :: conditions where
  "refused_write = \<lparr>env = Map.empty, clock = 0,
     rejects = (\<lambda>n. if n = 1 then Some ''violates foreign key constraint'' else None)\<rparr>"

definition sample_request :: request where
  "sample_request = \<lparr>rmethod = POST, rpath = [], authorization = None, body = JObj [],
     params_id = [], user = None\<rparr>"

definition sample_bcrypt :: bcrypt_module where
  "sample_bcrypt = \<lparr>hash = (\<lambda>p n. Normal (JArr [JStr ''bcrypt'', JNum (int n), p])),
     compare = (\<lambda>p h. Normal (h = JArr [JStr ''bcrypt'', JNum 10, p]))\<rparr>"

section \<open>Lemmas on decimal text\<close>

lemma digit_value_nth: "d < 10 \<Longrightarrow> digit_value (''0123456789'' ! d) = Some d"
proof -
  assume "d < 10"
  then have "d = 0 \<or> d = 1 \<or> d = 2 \<or> d = 3 \<or> d = 4
    \<or> d = 5 \<or> d = 6 \<or> d = 7 \<or> d = 8 \<or> d = 9"
    by arith
  then show ?thesis by (elim disjE) (simp_all add: digit_value_def)
qed

lemma nat_of_digits_snoc:
  "nat_of_digits acc (xs @ [c]) =
     (case nat_of_digits acc xs of
        None \<Rightarrow> None
      | Some m \<Rightarrow> (case digit_value c of None \<Rightarrow> None | Some d \<Rightarrow> Some (10 * m + d)))"
  by (induction xs arbitrary: acc) (auto split: option.splits)

lemma nat_of_digits_digits: "nat_of_digits 0 (digits n) = Some n"
proof (induction n rule: digits.induct)
  case (1 n)
  show ?case
  proof (cases "n < 10")
    case True
    then show ?thesis
      by (subst digits.simps) (simp add: digit_value_nth)
  next
    case False
    with "1.IH" have "nat_of_digits 0 (digits (n div 10)) = Some (n div 10)" by simp
    with False show ?thesis
      by (subst digits.simps) (simp add: nat_of_digits_snoc digit_value_nth)
  qed
qed

lemma digits_not_Nil: "digits n \<noteq> []"
  by (subst digits.simps) simp

lemma digits_chars: "set (digits n) \<subseteq> set ''0123456789''"
proof (induction n rule: digits.induct)
  case (1 n)
  have m: "''0123456789'' ! (n mod 10) \<in> set ''0123456789''"
    by (rule nth_mem) simp
  show ?case
  proof (cases "n < 10")
    case True
    then have "''0123456789'' ! n \<in> set ''0123456789''"
      by (intro nth_mem) simp
    with True show ?thesis
      by (subst digits.simps) simp
  next
    case False
    with "1.IH" have "set (digits (n div 10)) \<subseteq> set ''0123456789''" by simp
    with False m show ?thesis
      by (subst digits.simps) simp
  qed
qed

lemma digit_char_plain:
  "c \<in> set ''0123456789'' \<Longrightarrow> \<not> is_space c \<and> c \<noteq> CHR ''-'' \<and> c \<noteq> CHR ''+''"
  by (auto simp: is_space_def)

lemma trim_plain:
  assumes "s \<noteq> []" and "\<not> is_space (hd s)" and "\<not> is_space (last s)"
  shows "trim s = s"
proof -
  from assms(1,2) have "dropWhile is_space s = s"
    by (simp add: dropWhile_eq_self_iff)
  moreover from assms(1,3) have "dropWhile is_space (rev s) = rev s"
    by (simp add: dropWhile_eq_self_iff hd_rev)
  ultimately show ?thesis by (simp add: trim_def)
qed

lemma trim_digits: "trim (digits n) = digits n"
proof (rule trim_plain)
  show "digits n \<noteq> []" by (rule digits_not_Nil)
  have "hd (digits n) \<in> set (digits n)" by (simp add: digits_not_Nil)
  with digits_chars show "\<not> is_space (hd (digits n))" by (blast dest: digit_char_plain)
  have "last (digits n) \<in> set (digits n)" by (simp add: digits_not_Nil)
  with digits_chars show "\<not> is_space (last (digits n))" by (blast dest: digit_char_plain)
qed

lemma trim_minus_digits: "trim (CHR ''-'' # digits n) = CHR ''-'' # digits n"
proof (rule trim_plain)
  show "CHR ''-'' # digits n \<noteq> []" by simp
  show "\<not> is_space (hd (CHR ''-'' # digits n))" by (simp add: is_space_def)
  have "last (digits n) \<in> set (digits n)" by (simp add: digits_not_Nil)
  with digits_chars have "\<not> is_space (last (digits n))" by (blast dest: digit_char_plain)
  then show "\<not> is_space (last (CHR ''-'' # digits n))" by (simp add: digits_not_Nil)
qed

text \<open>The decimal text of an integer reads back as that integer.\<close>

lemma int_of_text_int_text: "int_of_text (int_text n) = Some n"
proof (cases "n < 0")
  case True
  then show ?thesis
    by (simp add: int_of_text_def int_text_def trim_minus_digits digits_not_Nil
        nat_of_digits_digits)
next
  case False
  obtain c cs where d: "digits (nat n) = c # cs"
    using digits_not_Nil [of "nat n"] by (cases "digits (nat n)") auto
  then have "c \<in> set (digits (nat n))" by simp
  with digits_chars have c: "c \<noteq> CHR ''-'' \<and> c \<noteq> CHR ''+''"
    by (blast dest: digit_char_plain)
  have "trim (c # cs) = c # cs" using trim_digits [of "nat n"] d by simp
  moreover have "nat_of_digits 0 (c # cs) = Some (nat n)"
    using nat_of_digits_digits [of "nat n"] d by simp
  ultimately show ?thesis using False c d
    by (simp add: int_of_text_def int_text_def)
qed

text \<open>
  A key that the database holds has a text, and the database reads that text as the key.
\<close>

lemma coerce_key_text:
  assumes "coerce kt v = Normal k"
  shows "\<exists>i. key_text k = Some i \<and> coerce kt (JStr i) = Normal k"
proof (cases kt)
  case INTEGER
  with assms obtain n where "k = JNum n" and "in_int4 n"
    by (cases v) (auto split: if_splits option.splits)
  with INTEGER show ?thesis by (simp add: int_of_text_int_text)
next
  case STRING
  with assms obtain s where "k = JStr s"
    by (cases v) auto
  with STRING show ?thesis by simp
qed

section \<open>Lemmas on the storage calls\<close>

lemma map_of_assign: "map_of (assign r a v) = (map_of r)(a \<mapsto> v)"
  by (induction r) auto

lemma find_snoc:
  "List.find P (xs @ [x]) =
     (case List.find P xs of Some y \<Rightarrow> Some y | None \<Rightarrow> if P x then Some x else None)"
  by (induction xs) auto

lemma findByPk_rejected: "findByPk (Some m) e st i = Throw m"
  by (simp add: findByPk_def)

lemma findByPk_absent:
  assumes "coerce (keyType (model_of e)) (JStr i) = Normal k"
      and "\<forall>r \<in> set (rows (st e)). \<not> has_key e k r"
  shows "findByPk None e st i = Normal None"
  using assms by (simp add: findByPk_def find_None_iff)

lemma findByPk_ill_formed:
  assumes "coerce (keyType (model_of e)) (JStr i) = Throw m"
  shows "findByPk None e st i = Throw m"
  using assms by (simp add: findByPk_def)

text \<open>When no row answers to the identifier, the lookup throws or finds nothing.\<close>

lemma findByPk_no_answer:
  assumes "\<forall>r \<in> set (rows (st e)). \<not> answers e i r"
  shows "(\<exists>m. findByPk rejected e st i = Throw m) \<or> findByPk rejected e st i = Normal None"
  using assms
  by (auto simp: findByPk_def answers_def find_None_iff split: option.splits completion.splits)

text \<open>
  A row that \<open>create\<close> accepts carries a key as the database holds it, which no stored row
  had, and is appended.
\<close>

lemma create_Normal:
  assumes "create rejected e st vals = Normal (r, st')"
  shows "\<exists>v k. coerce (keyType (model_of e)) v = Normal k
           \<and> has_key e k r
           \<and> List.find (has_key e k) (rows (st e)) = None
           \<and> rows (st' e) = rows (st e) @ [r]"
  using assms
  by (auto simp: create_def Let_def has_key_def
      split: option.splits if_splits completion.splits)

text \<open>After \<open>destroy\<close> no row has the key of the instance.\<close>

lemma destroy_absent:
  assumes "destroy rejected e st inst = Normal st'" and "has_key e k inst"
  shows "\<forall>r \<in> set (rows (st' e)). \<not> has_key e k r"
  using assms by (auto simp: destroy_def has_key_def split: option.splits)

lemma deleted_absent:
  assumes "delete_handler e w0 st0 req0 = (\<lparr>status = 204, payload = Empty\<rparr>, st)"
      and "coerce (keyType (model_of e)) (JStr (params_id req0)) = Normal k"
  shows "\<forall>r \<in> set (rows (st e)). \<not> has_key e k r"
proof -
  from assms(1) obtain inst
    where f: "findByPk (rejects w0 0) e st0 (params_id req0) = Normal (Some inst)"
      and d: "destroy (rejects w0 1) e st0 inst = Normal st"
    by (auto simp: delete_handler_def error_json_def json_def
        split: completion.splits option.splits)
  from f assms(2) have "has_key e k inst"
    by (auto simp: findByPk_def find_Some_iff split: option.splits)
  with d show ?thesis by (rule destroy_absent)
qed

lemma absent_404:
  assumes "rejects w 0 = None"
      and "coerce (keyType (model_of e)) (JStr (params_id req)) = Normal k"
      and "\<forall>r \<in> set (rows (st e)). \<not> has_key e k r"
  shows "get_handler e w st req = (error_json 404 (not_found e), st)"
    and "update_handler e w st req = (error_json 404 (not_found e), st)"
    and "delete_handler e w st req = (error_json 404 (not_found e), st)"
  using assms
  by (simp_all add: get_handler_def update_handler_def delete_handler_def findByPk_absent)

lemma ill_formed_statuses:
  assumes "rejects w 0 = None"
      and "coerce (keyType (model_of e)) (JStr (params_id req)) = Throw m"
  shows "get_handler e w st req = (error_json 500 m, st)"
    and "update_handler e w st req = (error_json 400 m, st)"
    and "delete_handler e w st req = (error_json 500 m, st)"
  using assms
  by (simp_all add: get_handler_def update_handler_def delete_handler_def findByPk_ill_formed)

text \<open>
  An update that is answered 200 writes the row it returns in the place of the one found:
  a get by the same identifier then returns that row.
\<close>

lemma fold_assign_other:
  assumes "\<forall>(a, v) \<in> set changes. a \<noteq> pk"
  shows "map_of (fold (\<lambda>(a, v) x. assign x a v) changes inst) pk = map_of inst pk"
  using assms
  by (induction changes arbitrary: inst) (auto simp: map_of_assign)

lemma find_replaced:
  assumes "has_key e k inst" and "has_key e k r" and "List.find (has_key e k) xs = Some inst"
  shows "List.find (has_key e k)
           (map (\<lambda>x. if map_of x (primaryKey (model_of e))
                          = map_of inst (primaryKey (model_of e)) then r else x) xs) = Some r"
  using assms
  by (induction xs) (auto simp: has_key_def split: if_splits)

lemma update_then_get:
  assumes "update_handler e w st req = (\<lparr>status = 200, payload = Json (JObj r)\<rparr>, st')"
      and "rejects w' 0 = None"
  shows "get_handler e w' st' req = (\<lparr>status = 200, payload = Json (JObj r)\<rparr>, st')"
proof -
  from assms(1) obtain inst
    where f: "findByPk (rejects w 0) e st (params_id req) = Normal (Some inst)"
      and u: "update (rejects w 1) e st inst (body req) = Normal (r, st')"
    by (auto simp: update_handler_def error_json_def json_def
        split: completion.splits option.splits)
  from f obtain k
    where k: "coerce (keyType (model_of e)) (JStr (params_id req)) = Normal k"
      and found: "List.find (has_key e k) (rows (st e)) = Some inst"
    by (auto simp: findByPk_def split: option.splits completion.splits)
  from found have hi: "has_key e k inst" by (auto simp: find_Some_iff)
  from u have r: "r = fold (\<lambda>(a, v) x. assign x a v)
                        (filter (\<lambda>(a, v). a \<noteq> primaryKey (model_of e)) (build e (body req)))
                        inst"
    and st': "rows (st' e) = map (\<lambda>x. if map_of x (primaryKey (model_of e))
                          = map_of inst (primaryKey (model_of e)) then r else x) (rows (st e))"
    by (auto simp: update_def Let_def split: option.splits)
  have "map_of r (primaryKey (model_of e)) = map_of inst (primaryKey (model_of e))"
    unfolding r by (rule fold_assign_other) auto
  with hi have hr: "has_key e k r" by (simp add: has_key_def)
  have "findByPk None e st' (params_id req) = Normal (Some r)"
    by (simp add: findByPk_def k st' find_replaced [OF hi hr found])
  then show ?thesis by (simp add: get_handler_def assms(2) json_def)
qed

text \<open>Which routes the table puts behind the middleware.\<close>

lemma guarded_routes:
  "(m, pat, guarded, opn) \<in> set routes \<Longrightarrow>
     guarded = (entity_of opn \<in> {Some User, Some Resource, Some DID, Some Document})
     \<and> (entity_of opn = Some DocumentTransaction \<longrightarrow> \<not> guarded)"
  by (auto simp: routes_def)

text \<open>
  The lookup of login names the column \<open>email\<close>, which the User model does not have: a login
  that carries an email is answered with what the storage layer says, whatever the store.
\<close>

lemma login_with_email:
  assumes "get_prop (body req) ''email'' \<noteq> JUndefined"
  shows "login bcrypt w st req =
           (error_json 400
              (case rejects w 0 of
                 Some m \<Rightarrow> m
               | None \<Rightarrow> ''column User.email does not exist''), st)"
proof -
  from assms have "body req \<noteq> JUndefined" and "body req \<noteq> JNull" by auto
  with assms show ?thesis
    by (simp add: login_def destructure_def findOne_def split: option.splits)
qed

section \<open>Lemmas on tokens\<close>

text \<open>
  What the script's \<open>generateAccessToken\<close> returns: the payload with the time stamp and an
  expiry one hour after it, signed with the secret.
\<close>

lemma generateAccessToken_Normal:
  assumes "generateAccessToken k now pay = Normal t"
  shows "k \<noteq> []
       \<and> claims t = assign (assign (filter (\<lambda>(a, v). v \<noteq> JUndefined) pay)
                              ''iat'' (JNum (timestamp pay now)))
                      ''exp'' (JNum (timestamp pay now + int one_hour))
       \<and> signature t = (k, claims t)"
  using assms
  by (auto simp: generateAccessToken_def jwt_sign_def Let_def split: if_splits option.splits)

section \<open>Theorems\<close>

text \<open>
  C1. Registration is meant to hash the password, store a user and answer 201 with the
  stored row, and to answer 400 only for malformed input or a storage violation. The handler
  names \<open>bcrypt\<close>, which the server module never binds. So every request is answered 400 and
  nothing is stored, whatever a hashing module would compute, whatever the conditions and
  the store; a body with a name, an email and a password gets the message of the
  \<open>ReferenceError\<close>.
\<close>

theorem register_always_fails:
  "status (fst (register bcrypt w st req)) = 400
   \<and> snd (register bcrypt w st req) = st
   \<and> register bcrypt w st
       (req\<lparr>body := JObj [(''name'', JStr ''A''), (''email'', JStr ''a@x.com''),
                          (''password'', JStr ''pw'')]\<rparr>)
       = (error_json 400 ''bcrypt is not defined'', st)"
  by (simp add: register_def destructure_def ident_def index_js_scope_def node_globals_def
      error_json_def json_def)

text \<open>
  C2. Two logins that carry an email, be it the email of a stored user or of none, under
  the same conditions get the very same response, whatever the passwords and the store:
  status 400 and a body \<open>{ error: message }\<close>. The response does not tell the two apart.
\<close>

theorem login_same_failure:
  assumes "get_prop (body r1) ''email'' \<noteq> JUndefined"
      and "get_prop (body r2) ''email'' \<noteq> JUndefined"
  shows "login bcrypt w st r1 = login bcrypt w st r2
       \<and> (\<exists>m. fst (login bcrypt w st r1) = error_json 400 m)
       \<and> snd (login bcrypt w st r1) = st"
  by (auto simp: login_with_email [OF assms(1)] login_with_email [OF assms(2)])

theorem login_same_failure_witness:
  "List.find (\<lambda>r. column r ''Email'' = JStr ''a@x.com'') (rows (one_user User))
     = Some [(''UserID'', JNum 1), (''Name'', JStr ''A''), (''Email'', JStr ''a@x.com'')]
   \<and> List.find (\<lambda>r. column r ''Email'' = JStr ''b@x.com'') (rows (one_user User)) = None
   \<and> login sample_bcrypt calm one_user
        (sample_request\<lparr>body := JObj [(''email'', JStr ''a@x.com''),
                                       (''password'', JStr ''wrong'')]\<rparr>)
     = login sample_bcrypt calm one_user
        (sample_request\<lparr>body := JObj [(''email'', JStr ''b@x.com''),
                                       (''password'', JStr ''pw'')]\<rparr>)
   \<and> fst (login sample_bcrypt calm one_user
        (sample_request\<lparr>body := JObj [(''email'', JStr ''a@x.com''),
                                       (''password'', JStr ''wrong'')]\<rparr>))
     = error_json 400 ''column User.email does not exist''"
proof -
  have a: "get_prop (body (sample_request\<lparr>body := JObj [(''email'', JStr ''a@x.com''),
              (''password'', JStr ''wrong'')]\<rparr>)) ''email'' \<noteq> JUndefined"
    by simp
  have b: "get_prop (body (sample_request\<lparr>body := JObj [(''email'', JStr ''b@x.com''),
              (''password'', JStr ''pw'')]\<rparr>)) ''email'' \<noteq> JUndefined"
    by simp
  have f: "fst (login sample_bcrypt calm one_user
        (sample_request\<lparr>body := JObj [(''email'', JStr ''a@x.com''),
                                       (''password'', JStr ''wrong'')]\<rparr>))
     = error_json 400 ''column User.email does not exist''"
    by (simp add: login_def destructure_def findOne_def calm_def)
  from login_same_failure [OF a b, of sample_bcrypt calm one_user] f
  show ?thesis by (simp add: one_user_def empty_store_def column_def)
qed

text \<open>
  C3. For the route that takes a request: if it is a route of User, Resource, DID or
  Document and the request has no authorization header, the answer is 401 and the store is
  untouched, whatever the handlers are, so no handler runs; if it is a route of
  DocumentTransaction, the answer is the handler's, whatever the header.
\<close>

theorem auth_gate:
  assumes "List.find (serves req) routes = Some (m, pat, guarded, opn)"
  shows "(entity_of opn \<in> {Some User, Some Resource, Some DID, Some Document} \<longrightarrow>
            authorization req = None \<longrightarrow>
            dispatch h w st req = (\<lparr>status = 401, payload = Empty\<rparr>, st))
       \<and> (entity_of opn = Some DocumentTransaction \<longrightarrow>
            dispatch h w st req = h opn w st (req\<lparr>params_id := capture pat (rpath req)\<rparr>))"
proof -
  from assms have "(m, pat, guarded, opn) \<in> set routes"
    by (auto simp: find_Some_iff in_set_conv_nth)
  from guarded_routes [OF this] show ?thesis
    using assms by (auto simp: dispatch_def authenticateJWT_def Let_def)
qed

theorem auth_gate_witness:
  "app sample_bcrypt calm one_user (sample_request\<lparr>rmethod := GET, rpath := [''users'']\<rparr>)
     = (\<lparr>status = 401, payload = Empty\<rparr>, one_user)
   \<and> app sample_bcrypt calm one_user
       (sample_request\<lparr>rmethod := GET, rpath := [''documenttransactions'']\<rparr>)
     = (json 200 (JArr []), one_user)"
proof -
  have u: "List.find (serves (sample_request\<lparr>rmethod := GET, rpath := [''users'']\<rparr>)) routes
             = Some (GET, [''users''], True, OpList User)"
    by (simp add: routes_def serves_def sample_request_def)
  have t: "List.find (serves (sample_request\<lparr>rmethod := GET,
                                rpath := [''documenttransactions'']\<rparr>)) routes
             = Some (GET, [''documenttransactions''], False, OpList DocumentTransaction)"
    by (simp add: routes_def serves_def sample_request_def)
  have l: "list_handler DocumentTransaction calm one_user
             (sample_request\<lparr>rmethod := GET, rpath := [''documenttransactions''],
                             params_id := []\<rparr>)
           = (json 200 (JArr []), one_user)"
    by (simp add: list_handler_def findAll_def calm_def one_user_def empty_store_def)
  from auth_gate [OF u, of "handler sample_bcrypt" calm one_user]
       auth_gate [OF t, of "handler sample_bcrypt" calm one_user] l
  show ?thesis by (simp add: app_def sample_request_def)
qed

text \<open>
  C4. With no signing secret in the configuration the script is meant to generate one and
  go on to issue its token. It does not: the fallback calls a function that the script never
  defines, so the start of the process stops with a \<open>ReferenceError\<close>, whatever the random
  source would have produced and at any time.
\<close>

theorem token_js_without_secret_throws:
  "token_js Map.empty generated now = Throw ''generateAccessTokenSecret is not defined''"
  by (simp add: token_js_def accessTokenSecret_def ident_def token_js_scope_def node_globals_def)

text \<open>
  C5, as it stands, fails: an identifier that was never created need not get 404. With the
  storage layer in order and nothing stored, \<open>abc\<close> on the users, whose key is an integer,
  gets 500 from get and delete and 400 from update; and when the storage layer rejects the
  lookup, so does \<open>7\<close>.
\<close>

theorem ill_formed_identifier_not_404:
  "get_handler User calm empty_store (sample_request\<lparr>params_id := ''abc''\<rparr>)
     = (error_json 500 ''invalid input syntax for type integer: abc'', empty_store)
   \<and> update_handler User calm empty_store (sample_request\<lparr>params_id := ''abc''\<rparr>)
     = (error_json 400 ''invalid input syntax for type integer: abc'', empty_store)
   \<and> delete_handler User calm empty_store (sample_request\<lparr>params_id := ''abc''\<rparr>)
     = (error_json 500 ''invalid input syntax for type integer: abc'', empty_store)
   \<and> get_handler User outage empty_store (sample_request\<lparr>params_id := ''7''\<rparr>)
     = (error_json 500 ''Connection terminated unexpectedly'', empty_store)
   \<and> update_handler User outage empty_store (sample_request\<lparr>params_id := ''7''\<rparr>)
     = (error_json 400 ''Connection terminated unexpectedly'', empty_store)
   \<and> delete_handler User outage empty_store (sample_request\<lparr>params_id := ''7''\<rparr>)
     = (error_json 500 ''Connection terminated unexpectedly'', empty_store)"
  by (simp add: get_handler_def update_handler_def delete_handler_def findByPk_def calm_def
      outage_def int_of_text_def trim_def is_space_def digit_value_def)

text \<open>
  C5, amended. When the storage layer does not reject the lookup: an identifier that the
  database reads as a key, and whose key no row of the table has or a delete answered with
  204 has just removed, gets 404 from the get, the update and the delete handler alike, so a
  second delete is answered 404, not 204; an identifier that the database cannot read as a
  key gets 500 from get and delete and 400 from update, with the database's message.
\<close>

theorem missing_identifier_not_found:
  assumes "rejects w 0 = None"
  shows "(\<forall>k. coerce (keyType (model_of e)) (JStr (params_id req)) = Normal k \<longrightarrow>
            ((\<forall>r \<in> set (rows (st e)). \<not> has_key e k r)
             \<or> (\<exists>w0 st0 req0.
                   coerce (keyType (model_of e)) (JStr (params_id req0)) = Normal k \<and>
                   delete_handler e w0 st0 req0 = (\<lparr>status = 204, payload = Empty\<rparr>, st))) \<longrightarrow>
            get_handler e w st req = (error_json 404 (not_found e), st)
          \<and> update_handler e w st req = (error_json 404 (not_found e), st)
          \<and> delete_handler e w st req = (error_json 404 (not_found e), st))
       \<and> (\<forall>m. coerce (keyType (model_of e)) (JStr (params_id req)) = Throw m \<longrightarrow>
            get_handler e w st req = (error_json 500 m, st)
          \<and> update_handler e w st req = (error_json 400 m, st)
          \<and> delete_handler e w st req = (error_json 500 m, st))"
proof (intro conjI allI impI)
  fix k
  assume k: "coerce (keyType (model_of e)) (JStr (params_id req)) = Normal k"
    and "(\<forall>r \<in> set (rows (st e)). \<not> has_key e k r)
         \<or> (\<exists>w0 st0 req0.
               coerce (keyType (model_of e)) (JStr (params_id req0)) = Normal k \<and>
               delete_handler e w0 st0 req0 = (\<lparr>status = 204, payload = Empty\<rparr>, st))"
  then have absent: "\<forall>r \<in> set (rows (st e)). \<not> has_key e k r"
    using deleted_absent by blast
  show "get_handler e w st req = (error_json 404 (not_found e), st)"
    by (rule absent_404 [where st = st and e = e, OF assms k absent])
  show "update_handler e w st req = (error_json 404 (not_found e), st)"
    by (rule absent_404 [where st = st and e = e, OF assms k absent])
  show "delete_handler e w st req = (error_json 404 (not_found e), st)"
    by (rule absent_404 [where st = st and e = e, OF assms k absent])
next
  fix m
  assume m: "coerce (keyType (model_of e)) (JStr (params_id req)) = Throw m"
  show "get_handler e w st req = (error_json 500 m, st)"
    by (rule ill_formed_statuses [where st = st and e = e, OF assms m])
  show "update_handler e w st req = (error_json 400 m, st)"
    by (rule ill_formed_statuses [where st = st and e = e, OF assms m])
  show "delete_handler e w st req = (error_json 500 m, st)"
    by (rule ill_formed_statuses [where st = st and e = e, OF assms m])
qed

theorem missing_identifier_not_found_witness:
  "rejects calm 0 = None
   \<and> coerce (keyType (model_of User)) (JStr ''01'') = Normal (JNum 1)
   \<and> delete_handler User calm one_user (sample_request\<lparr>params_id := ''1''\<rparr>)
       = (\<lparr>status = 204, payload = Empty\<rparr>,
          snd (delete_handler User calm one_user (sample_request\<lparr>params_id := ''1''\<rparr>)))
   \<and> get_handler User calm
         (snd (delete_handler User calm one_user (sample_request\<lparr>params_id := ''1''\<rparr>)))
         (sample_request\<lparr>params_id := ''01''\<rparr>)
       = (error_json 404 ''User not found'',
          snd (delete_handler User calm one_user (sample_request\<lparr>params_id := ''1''\<rparr>)))
   \<and> update_handler User calm
         (snd (delete_handler User calm one_user (sample_request\<lparr>params_id := ''1''\<rparr>)))
         (sample_request\<lparr>params_id := ''01''\<rparr>)
       = (error_json 404 ''User not found'',
          snd (delete_handler User calm one_user (sample_request\<lparr>params_id := ''1''\<rparr>)))
   \<and> delete_handler User calm
         (snd (delete_handler User calm one_user (sample_request\<lparr>params_id := ''1''\<rparr>)))
         (sample_request\<lparr>params_id := ''01''\<rparr>)
       = (error_json 404 ''User not found'',
          snd (delete_handler User calm one_user (sample_request\<lparr>params_id := ''1''\<rparr>)))"
proof -
  have r: "rejects calm 0 = None" by (simp add: calm_def)
  have k1: "coerce (keyType (model_of User)) (JStr ''1'') = Normal (JNum 1)"
    by (simp add: int_of_text_def trim_def is_space_def digit_value_def in_int4_def)
  have k: "coerce (keyType (model_of User))
             (JStr (params_id (sample_request\<lparr>params_id := ''01''\<rparr>))) = Normal (JNum 1)"
    by (simp add: int_of_text_def trim_def is_space_def digit_value_def in_int4_def)
  have d: "delete_handler User calm one_user (sample_request\<lparr>params_id := ''1''\<rparr>)
       = (\<lparr>status = 204, payload = Empty\<rparr>,
          snd (delete_handler User calm one_user (sample_request\<lparr>params_id := ''1''\<rparr>)))"
    by (simp add: delete_handler_def findByPk_def destroy_def has_key_def calm_def
        one_user_def empty_store_def int_of_text_def trim_def is_space_def digit_value_def
        in_int4_def)
  have "(\<forall>r \<in> set (rows (snd (delete_handler User calm one_user
                               (sample_request\<lparr>params_id := ''1''\<rparr>)) User)).
            \<not> has_key User (JNum 1) r)
        \<or> (\<exists>w0 st0 req0.
              coerce (keyType (model_of User)) (JStr (params_id req0)) = Normal (JNum 1) \<and>
              delete_handler User w0 st0 req0 = (\<lparr>status = 204, payload = Empty\<rparr>,
                snd (delete_handler User calm one_user (sample_request\<lparr>params_id := ''1''\<rparr>))))"
    using d k1 by (intro disjI2 exI [of _ calm] exI [of _ one_user]
        exI [of _ "sample_request\<lparr>params_id := ''1''\<rparr>"]) simp
  with missing_identifier_not_found [OF r, of User "sample_request\<lparr>params_id := ''01''\<rparr>"
      "snd (delete_handler User calm one_user (sample_request\<lparr>params_id := ''1''\<rparr>))"] k
  have "get_handler User calm
         (snd (delete_handler User calm one_user (sample_request\<lparr>params_id := ''1''\<rparr>)))
         (sample_request\<lparr>params_id := ''01''\<rparr>)
       = (error_json 404 (not_found User),
          snd (delete_handler User calm one_user (sample_request\<lparr>params_id := ''1''\<rparr>)))
   \<and> update_handler User calm
         (snd (delete_handler User calm one_user (sample_request\<lparr>params_id := ''1''\<rparr>)))
         (sample_request\<lparr>params_id := ''01''\<rparr>)
       = (error_json 404 (not_found User),
          snd (delete_handler User calm one_user (sample_request\<lparr>params_id := ''1''\<rparr>)))
   \<and> delete_handler User calm
         (snd (delete_handler User calm one_user (sample_request\<lparr>params_id := ''1''\<rparr>)))
         (sample_request\<lparr>params_id := ''01''\<rparr>)
       = (error_json 404 (not_found User),
          snd (delete_handler User calm one_user (sample_request\<lparr>params_id := ''1''\<rparr>)))"
    by blast
  with r k d show ?thesis by simp
qed

text \<open>
  C6. When create answers 201 with a row, the row is in the table and has an identifier, and
  a get by that identifier, with a lookup that the storage layer does not reject, answers 200
  with the very same row and leaves the store as it is.
\<close>

theorem create_then_get:
  assumes "create_handler e w st req = (\<lparr>status = 201, payload = Json (JObj r)\<rparr>, st')"
      and "rejects w' 0 = None"
  shows "\<exists>i. row_key e r = Some i \<and> r \<in> set (rows (st' e)) \<and>
           get_handler e w' st' (req'\<lparr>params_id := i\<rparr>)
             = (\<lparr>status = 200, payload = Json (JObj r)\<rparr>, st')"
proof -
  from assms(1) have c: "create (rejects w 0) e st (body req) = Normal (r, st')"
    by (auto simp: create_handler_def json_def error_json_def split: completion.splits)
  from create_Normal [OF c] obtain v k
    where v: "coerce (keyType (model_of e)) v = Normal k"
      and hk: "has_key e k r"
      and fresh: "List.find (has_key e k) (rows (st e)) = None"
      and rows': "rows (st' e) = rows (st e) @ [r]"
    by blast
  from coerce_key_text [OF v] obtain i
    where i: "key_text k = Some i"
      and ci: "coerce (keyType (model_of e)) (JStr i) = Normal k"
    by blast
  from hk i have rk: "row_key e r = Some i"
    by (simp add: has_key_def row_key_def)
  have "findByPk None e st' i = Normal (Some r)"
    by (simp add: findByPk_def ci rows' find_snoc fresh hk)
  then have "get_handler e w' st' (req'\<lparr>params_id := i\<rparr>)
               = (\<lparr>status = 200, payload = Json (JObj r)\<rparr>, st')"
    by (simp add: get_handler_def assms(2) json_def)
  with rk rows' show ?thesis by auto
qed

theorem create_then_get_witness:
  "\<exists>i. row_key User [(''UserID'', JNum 1), (''Name'', JStr ''A'')] = Some i \<and>
     [(''UserID'', JNum 1), (''Name'', JStr ''A'')]
       \<in> set (rows (snd (create_handler User calm empty_store
                  (sample_request\<lparr>body := JObj [(''Name'', JStr ''A'')]\<rparr>)) User)) \<and>
     get_handler User calm
       (snd (create_handler User calm empty_store
               (sample_request\<lparr>body := JObj [(''Name'', JStr ''A'')]\<rparr>)))
       (sample_request\<lparr>params_id := i\<rparr>)
       = (\<lparr>status = 200, payload = Json (JObj [(''UserID'', JNum 1), (''Name'', JStr ''A'')])\<rparr>,
          snd (create_handler User calm empty_store
                 (sample_request\<lparr>body := JObj [(''Name'', JStr ''A'')]\<rparr>)))"
proof -
  have h: "create_handler User calm empty_store
             (sample_request\<lparr>body := JObj [(''Name'', JStr ''A'')]\<rparr>)
     = (\<lparr>status = 201, payload = Json (JObj [(''UserID'', JNum 1), (''Name'', JStr ''A'')])\<rparr>,
        snd (create_handler User calm empty_store
               (sample_request\<lparr>body := JObj [(''Name'', JStr ''A'')]\<rparr>)))"
    by (simp add: create_handler_def create_def build_def List.map_filter_def column_def
        has_key_def in_int4_def empty_store_def calm_def json_def Let_def)
  have r: "rejects calm 0 = None" by (simp add: calm_def)
  show ?thesis by (rule create_then_get [OF h r])
qed

text \<open>
  C7, as it stands, fails: the statuses do not follow the cause of the failure. A delete
  that the storage layer refuses for a violated constraint is answered 500, not 400; an
  update whose lookup fails for an unexpected storage error is answered 400, not 500, and
  so is a create.
\<close>

theorem write_failures_not_by_cause:
  "delete_handler User refused_write one_user (sample_request\<lparr>params_id := ''1''\<rparr>)
     = (error_json 500 ''violates foreign key constraint'', one_user)
   \<and> update_handler User outage one_user (sample_request\<lparr>params_id := ''1''\<rparr>)
     = (error_json 400 ''Connection terminated unexpectedly'', one_user)
   \<and> create_handler User outage one_user sample_request
     = (error_json 400 ''Connection terminated unexpectedly'', one_user)"
  by (simp add: delete_handler_def update_handler_def create_handler_def findByPk_def
      destroy_def create_def refused_write_def outage_def one_user_def empty_store_def
      has_key_def int_of_text_def trim_def is_space_def digit_value_def in_int4_def)

text \<open>
  C7, amended. A handler's response with a status of 400 or more has the body
  \<open>{ error: message }\<close>, and every failure is reported, with a status that the operation and
  the place of the failure fix, and with the message of the error:
  create, registration and login answer 400 (create for every error of the call, with its
  message, and 201 with the row otherwise); list answers 500 when the storage layer rejects the call, and 200
  with all rows otherwise; get, update and delete answer with the status of their catch
  clause (500, 400, 500) when the storage layer rejects the lookup or the database cannot
  read the identifier, 404 when the lookup finds no row, and, when it finds one, update
  answers 400 and delete 500 if the storage layer rejects the write.
\<close>

theorem failure_statuses:
  assumes "handler bcrypt opn w st req = (res, st')"
  shows "(400 \<le> status res \<longrightarrow> (\<exists>m. res = error_json (status res) m))
   \<and> (case opn of
        OpCreate e \<Rightarrow>
          (\<forall>m. rejects w 0 = Some m \<longrightarrow> res = error_json 400 m)
          \<and> (\<forall>m. create (rejects w 0) e st (body req) = Throw m \<longrightarrow>
                 res = error_json 400 m)
          \<and> (\<forall>r s. create (rejects w 0) e st (body req) = Normal (r, s) \<longrightarrow>
                 res = json 201 (JObj r))
      | OpList e \<Rightarrow>
          (\<forall>m. rejects w 0 = Some m \<longrightarrow> res = error_json 500 m)
          \<and> (rejects w 0 = None \<longrightarrow> res = json 200 (JArr (map JObj (rows (st e)))))
      | OpGet e \<Rightarrow>
          (\<forall>m. rejects w 0 = Some m \<longrightarrow> res = error_json 500 m)
          \<and> (rejects w 0 = None \<longrightarrow>
               (\<forall>m. coerce (keyType (model_of e)) (JStr (params_id req)) = Throw m \<longrightarrow>
                  res = error_json 500 m)
             \<and> (\<forall>k. coerce (keyType (model_of e)) (JStr (params_id req)) = Normal k \<longrightarrow>
                  (List.find (has_key e k) (rows (st e)) = None \<longrightarrow>
                     res = error_json 404 (not_found e))
                \<and> (\<forall>r. List.find (has_key e k) (rows (st e)) = Some r \<longrightarrow>
                     res = json 200 (JObj r))))
      | OpUpdate e \<Rightarrow>
          (\<forall>m. rejects w 0 = Some m \<longrightarrow> res = error_json 400 m)
          \<and> (rejects w 0 = None \<longrightarrow>
               (\<forall>m. coerce (keyType (model_of e)) (JStr (params_id req)) = Throw m \<longrightarrow>
                  res = error_json 400 m)
             \<and> (\<forall>k. coerce (keyType (model_of e)) (JStr (params_id req)) = Normal k \<longrightarrow>
                  (List.find (has_key e k) (rows (st e)) = None \<longrightarrow>
                     res = error_json 404 (not_found e))
                \<and> (\<forall>r. List.find (has_key e k) (rows (st e)) = Some r \<longrightarrow>
                     (\<forall>m. rejects w 1 = Some m \<longrightarrow> res = error_json 400 m)
                   \<and> (rejects w 1 = None \<longrightarrow> status res = 200))))
      | OpDelete e \<Rightarrow>
          (\<forall>m. rejects w 0 = Some m \<longrightarrow> res = error_json 500 m)
          \<and> (rejects w 0 = None \<longrightarrow>
               (\<forall>m. coerce (keyType (model_of e)) (JStr (params_id req)) = Throw m \<longrightarrow>
                  res = error_json 500 m)
             \<and> (\<forall>k. coerce (keyType (model_of e)) (JStr (params_id req)) = Normal k \<longrightarrow>
                  (List.find (has_key e k) (rows (st e)) = None \<longrightarrow>
                     res = error_json 404 (not_found e))
                \<and> (\<forall>r. List.find (has_key e k) (rows (st e)) = Some r \<longrightarrow>
                     (\<forall>m. rejects w 1 = Some m \<longrightarrow> res = error_json 500 m)
                   \<and> (rejects w 1 = None \<longrightarrow> res = \<lparr>status = 204, payload = Empty\<rparr>))))
      | OpRegister \<Rightarrow> status res = 400
      | OpLogin \<Rightarrow> status res = 400)"
proof (cases opn)
  case (OpCreate e)
  have "create (Some m) e st (body req) = Throw m" for m
    by (simp add: create_def)
  with OpCreate assms show ?thesis
    by (auto simp: create_handler_def error_json_def json_def split: completion.splits)
next
  case (OpList e)
  with assms show ?thesis
    by (auto simp: list_handler_def findAll_def error_json_def json_def
        split: completion.splits option.splits)
next
  case (OpGet e)
  with assms show ?thesis
    by (auto simp: get_handler_def findByPk_def error_json_def json_def
        split: completion.splits option.splits)
next
  case (OpUpdate e)
  with assms show ?thesis
    by (auto simp: update_handler_def update_def findByPk_def error_json_def json_def Let_def
        split: completion.splits option.splits)
next
  case (OpDelete e)
  with assms show ?thesis
    by (auto simp: delete_handler_def destroy_def findByPk_def error_json_def json_def
        split: completion.splits option.splits)
next
  case OpRegister
  with assms show ?thesis
    by (auto simp: register_def ident_def index_js_scope_def node_globals_def
        error_json_def json_def split: completion.splits)
next
  case OpLogin
  with assms show ?thesis
    by (auto simp: login_def ident_def index_js_scope_def node_globals_def
        error_json_def json_def split: completion.splits option.splits)
qed

theorem failure_statuses_witness:
  "fst (handler sample_bcrypt (OpList User) outage one_user sample_request)
     = error_json 500 ''Connection terminated unexpectedly''
   \<and> fst (handler sample_bcrypt (OpGet User) outage one_user
            (sample_request\<lparr>params_id := ''1''\<rparr>))
     = error_json 500 ''Connection terminated unexpectedly''
   \<and> fst (handler sample_bcrypt (OpGet User) calm one_user
            (sample_request\<lparr>params_id := ''7''\<rparr>))
     = error_json 404 ''User not found''
   \<and> fst (handler sample_bcrypt (OpUpdate User) refused_write one_user
            (sample_request\<lparr>params_id := ''1''\<rparr>))
     = error_json 400 ''violates foreign key constraint''
   \<and> fst (handler sample_bcrypt (OpDelete User) refused_write one_user
            (sample_request\<lparr>params_id := ''1''\<rparr>))
     = error_json 500 ''violates foreign key constraint''
   \<and> fst (handler sample_bcrypt (OpCreate User) outage one_user sample_request)
     = error_json 400 ''Connection terminated unexpectedly''"
proof -
  have p: "handler sample_bcrypt opn w st req
             = (fst (handler sample_bcrypt opn w st req),
                snd (handler sample_bcrypt opn w st req))" for opn w st req
    by simp
  from failure_statuses [OF p [of "OpList User" outage one_user sample_request]]
  have l: "fst (handler sample_bcrypt (OpList User) outage one_user sample_request)
     = error_json 500 ''Connection terminated unexpectedly''"
    by (simp add: outage_def)
  from failure_statuses [OF p [of "OpGet User" outage one_user
      "sample_request\<lparr>params_id := ''1''\<rparr>"]]
  have g: "fst (handler sample_bcrypt (OpGet User) outage one_user
            (sample_request\<lparr>params_id := ''1''\<rparr>))
     = error_json 500 ''Connection terminated unexpectedly''"
    by (simp add: outage_def)
  from failure_statuses [OF p [of "OpGet User" calm one_user
      "sample_request\<lparr>params_id := ''7''\<rparr>"]]
  have n: "fst (handler sample_bcrypt (OpGet User) calm one_user
            (sample_request\<lparr>params_id := ''7''\<rparr>))
     = error_json 404 ''User not found''"
    by (simp add: calm_def one_user_def has_key_def
        int_of_text_def trim_def is_space_def digit_value_def in_int4_def)
  from failure_statuses [OF p [of "OpUpdate User" refused_write one_user
      "sample_request\<lparr>params_id := ''1''\<rparr>"]]
  have u: "fst (handler sample_bcrypt (OpUpdate User) refused_write one_user
            (sample_request\<lparr>params_id := ''1''\<rparr>))
     = error_json 400 ''violates foreign key constraint''"
    by (simp add: refused_write_def one_user_def has_key_def
        int_of_text_def trim_def is_space_def digit_value_def in_int4_def)
  from failure_statuses [OF p [of "OpDelete User" refused_write one_user
      "sample_request\<lparr>params_id := ''1''\<rparr>"]]
  have d: "fst (handler sample_bcrypt (OpDelete User) refused_write one_user
            (sample_request\<lparr>params_id := ''1''\<rparr>))
     = error_json 500 ''violates foreign key constraint''"
    by (simp add: refused_write_def one_user_def has_key_def
        int_of_text_def trim_def is_space_def digit_value_def in_int4_def)
  from failure_statuses [OF p [of "OpCreate User" outage one_user sample_request]]
  have c: "fst (handler sample_bcrypt (OpCreate User) outage one_user sample_request)
     = error_json 400 ''Connection terminated unexpectedly''"
    by (simp add: outage_def)
  from l g n u d c show ?thesis by simp
qed

text \<open>
  C8. The User entity is meant to carry the password as a hash. The User model declares no
  password attribute at all: a user created with a \<open>password\<close> property is stored, and
  returned, without it.
\<close>

theorem user_model_drops_password:
  "''password'' \<notin> set (attributes (model_of User))
   \<and> fst (create_handler User calm empty_store
        (sample_request\<lparr>body := JObj [(''Name'', JStr ''A''), (''Email'', JStr ''a@x.com''),
            (''password'', JStr ''$2b$10$N9qo8uLOickgx2ZMRZoMye'')]\<rparr>))
     = json 201 (JObj [(''UserID'', JNum 1), (''Name'', JStr ''A''), (''Email'', JStr ''a@x.com'')])"
  by (simp add: create_handler_def create_def build_def List.map_filter_def column_def
        has_key_def in_int4_def empty_store_def calm_def json_def Let_def sample_request_def)

text \<open>
  C9. Every token that the script issues carries the id and the user name it was given, the
  time of issue as \<open>iat\<close> and that time plus one hour, 3600 seconds, as \<open>exp\<close>, and is
  signed with the configured secret. For any payload, a token of \<open>generateAccessToken\<close>
  carries every property of the payload that is defined; its \<open>iat\<close> is the time of issue
  (or the \<open>iat\<close> that the payload brings), and its \<open>exp\<close> is one hour after its \<open>iat\<close>; it
  is signed with the secret over all its claims, so that under that signature no other
  claims verify, with any secret, and the token verifies with no other secret. Login issues
  no token at all: no response of login carries one.
\<close>

theorem issued_tokens:
  assumes "generateAccessToken k now pay = Normal t"
  shows "(\<forall>a. a \<noteq> ''iat'' \<longrightarrow> a \<noteq> ''exp'' \<longrightarrow>
            map_of (claims t) a = map_of (filter (\<lambda>(a, v). v \<noteq> JUndefined) pay) a)
       \<and> map_of (claims t) ''iat'' = Some (JNum (timestamp pay now))
       \<and> map_of (claims t) ''exp'' = Some (JNum (timestamp pay now + 3600))
       \<and> (map_of pay ''iat'' = None \<longrightarrow> timestamp pay now = int now)
       \<and> signature t = (k, claims t)
       \<and> (\<forall>t' s n. signature t' = signature t \<longrightarrow> claims t' \<noteq> claims t \<longrightarrow>
            jwt_verify t' s n = None)
       \<and> (\<forall>k' n. k' \<noteq> k \<longrightarrow> jwt_verify t (Some k') n = None)
       \<and> (\<forall>n. not_before_ok (claims t) n \<longrightarrow>
            jwt_verify t (Some k) n
              = (if int n < timestamp pay now + 3600 then Some (claims t) else None))
       \<and> (\<forall>bcrypt w st req t'. payload (fst (login bcrypt w st req)) \<noteq> TokenJson t')
       \<and> (\<forall>env generated n u. token_js env generated n = Normal u \<longrightarrow>
            claims u = [(''id'', JNum 123), (''username'', JStr ''example_user''),
                        (''iat'', JNum (int n)), (''exp'', JNum (int n + 3600))]
          \<and> (\<exists>s. env ''ACCESS_TOKEN_SECRET'' = Some s \<and> signature u = (s, claims u)))"
proof -
  have script: "claims u = [(''id'', JNum 123), (''username'', JStr ''example_user''),
                        (''iat'', JNum (int n)), (''exp'', JNum (int n + 3600))]
          \<and> (\<exists>s. env ''ACCESS_TOKEN_SECRET'' = Some s \<and> signature u = (s, claims u))"
    if "token_js env generated n = Normal u" for env generated n u
    using that
    by (auto simp: token_js_def accessTokenSecret_def ident_def token_js_scope_def
        node_globals_def generateAccessToken_def jwt_sign_def bad_claim_def timestamp_def
        one_hour_def Let_def split: option.splits if_splits completion.splits)
  from generateAccessToken_Normal [OF assms]
  have k: "k \<noteq> []"
    and c: "claims t = assign (assign (filter (\<lambda>(a, v). v \<noteq> JUndefined) pay)
                              ''iat'' (JNum (timestamp pay now)))
                      ''exp'' (JNum (timestamp pay now + int one_hour))"
    and s: "signature t = (k, claims t)"
    by simp_all
  have others: "map_of (claims t) a = map_of (filter (\<lambda>(a, v). v \<noteq> JUndefined) pay) a"
    if "a \<noteq> ''iat''" and "a \<noteq> ''exp''" for a
    using that by (simp add: c map_of_assign)
  have iat: "map_of (claims t) ''iat'' = Some (JNum (timestamp pay now))"
    by (simp add: c map_of_assign)
  have exp: "map_of (claims t) ''exp'' = Some (JNum (timestamp pay now + 3600))"
    by (simp add: c map_of_assign one_hour_def)
  have now: "timestamp pay now = int now" if "map_of pay ''iat'' = None"
    using that by (simp add: timestamp_def)
  have altered: "jwt_verify t' s' n = None"
    if "signature t' = signature t" and "claims t' \<noteq> claims t" for t' s' n
    using that s by (auto simp: jwt_verify_def split: option.splits)
  have other_key: "jwt_verify t (Some k') n = None" if "k' \<noteq> k" for k' n
    using that s by (simp add: jwt_verify_def)
  have verifies: "jwt_verify t (Some k) n
              = (if int n < timestamp pay now + 3600 then Some (claims t) else None)"
    if "not_before_ok (claims t) n" for n
    using that k s exp by (simp add: jwt_verify_def not_expired_def)
  have no_login: "payload (fst (login bcrypt w st req)) \<noteq> TokenJson t'" for bcrypt w st req t'
    by (simp add: login_def ident_def index_js_scope_def node_globals_def error_json_def
        json_def split: completion.split option.split)
  from others iat exp now s altered other_key verifies no_login script show ?thesis
    by blast
qed

theorem issued_tokens_witness:
  "token_js [''ACCESS_TOKEN_SECRET'' \<mapsto> ''k''] [] 1000
     = Normal (Token [(''id'', JNum 123), (''username'', JStr ''example_user''),
                      (''iat'', JNum 1000), (''exp'', JNum 4600)]
                (''k'', [(''id'', JNum 123), (''username'', JStr ''example_user''),
                      (''iat'', JNum 1000), (''exp'', JNum 4600)]))
   \<and> jwt_verify (Token [(''id'', JNum 123), (''username'', JStr ''example_user''),
                      (''iat'', JNum 1000), (''exp'', JNum 4600)]
                (''k'', [(''id'', JNum 123), (''username'', JStr ''example_user''),
                      (''iat'', JNum 1000), (''exp'', JNum 4600)])) (Some ''k'') 4599
       = Some [(''id'', JNum 123), (''username'', JStr ''example_user''),
               (''iat'', JNum 1000), (''exp'', JNum 4600)]
   \<and> jwt_verify (Token [(''id'', JNum 123), (''username'', JStr ''example_user''),
                      (''iat'', JNum 1000), (''exp'', JNum 4600)]
                (''k'', [(''id'', JNum 123), (''username'', JStr ''example_user''),
                      (''iat'', JNum 1000), (''exp'', JNum 4600)])) (Some ''k'') 4600
       = None
   \<and> jwt_verify (Token [(''id'', JNum 1), (''username'', JStr ''example_user''),
                      (''iat'', JNum 1000), (''exp'', JNum 4600)]
                (''k'', [(''id'', JNum 123), (''username'', JStr ''example_user''),
                      (''iat'', JNum 1000), (''exp'', JNum 4600)])) (Some ''k'') 2000
       = None"
proof -
  have g: "generateAccessToken ''k'' 1000 [(''id'', JNum 123), (''username'', JStr ''example_user'')]
     = Normal (Token [(''id'', JNum 123), (''username'', JStr ''example_user''),
                      (''iat'', JNum 1000), (''exp'', JNum 4600)]
                (''k'', [(''id'', JNum 123), (''username'', JStr ''example_user''),
                      (''iat'', JNum 1000), (''exp'', JNum 4600)]))"
    by (simp add: generateAccessToken_def jwt_sign_def bad_claim_def timestamp_def one_hour_def
        Let_def)
  have j: "token_js [''ACCESS_TOKEN_SECRET'' \<mapsto> ''k''] [] 1000
     = generateAccessToken ''k'' 1000 [(''id'', JNum 123), (''username'', JStr ''example_user'')]"
    by (simp add: token_js_def accessTokenSecret_def)
  have nb: "not_before_ok [(''id'', JNum 123), (''username'', JStr ''example_user''),
                      (''iat'', JNum 1000), (''exp'', JNum 4600)] n" for n
    by (simp add: not_before_ok_def)
  have ts: "timestamp [(''id'', JNum 123), (''username'', JStr ''example_user'')] 1000 = 1000"
    by (simp add: timestamp_def)
  from issued_tokens [OF g] nb ts
  have v: "\<And>n. jwt_verify (Token [(''id'', JNum 123), (''username'', JStr ''example_user''),
                      (''iat'', JNum 1000), (''exp'', JNum 4600)]
                (''k'', [(''id'', JNum 123), (''username'', JStr ''example_user''),
                      (''iat'', JNum 1000), (''exp'', JNum 4600)])) (Some ''k'') n
       = (if int n < 4600 then Some [(''id'', JNum 123), (''username'', JStr ''example_user''),
               (''iat'', JNum 1000), (''exp'', JNum 4600)] else None)"
    and a: "\<And>t' s n. signature t' = (''k'', [(''id'', JNum 123),
                 (''username'', JStr ''example_user''), (''iat'', JNum 1000),
                 (''exp'', JNum 4600)]) \<Longrightarrow>
              claims t' \<noteq> [(''id'', JNum 123), (''username'', JStr ''example_user''),
                 (''iat'', JNum 1000), (''exp'', JNum 4600)] \<Longrightarrow>
              jwt_verify t' s n = None"
    by simp_all
  from g j v [of 4599] v [of 4600]
    a [of "Token [(''id'', JNum 1), (''username'', JStr ''example_user''),
                      (''iat'', JNum 1000), (''exp'', JNum 4600)]
                (''k'', [(''id'', JNum 123), (''username'', JStr ''example_user''),
                      (''iat'', JNum 1000), (''exp'', JNum 4600)])" "Some ''k''" 2000]
  show ?thesis by simp
qed

text \<open>
  C10. When no row of the table answers to the identifier, the get, the update and the
  delete handler leave the store exactly as it was, whatever the storage layer does with
  the lookup; and when the storage layer does not reject the lookup and the database reads
  the identifier as a key, the response is the 404.
\<close>

theorem not_found_writes_nothing:
  assumes "\<forall>r \<in> set (rows (st e)). \<not> answers e (params_id req) r"
  shows "snd (get_handler e w st req) = st
       \<and> snd (update_handler e w st req) = st
       \<and> snd (delete_handler e w st req) = st
       \<and> (rejects w 0 = None \<longrightarrow>
          (\<forall>k. coerce (keyType (model_of e)) (JStr (params_id req)) = Normal k \<longrightarrow>
            fst (get_handler e w st req) = error_json 404 (not_found e)
          \<and> fst (update_handler e w st req) = error_json 404 (not_found e)
          \<and> fst (delete_handler e w st req) = error_json 404 (not_found e)))"
proof -
  from findByPk_no_answer [where st = st and e = e and rejected = "rejects w 0", OF assms]
  have unchanged: "snd (get_handler e w st req) = st
       \<and> snd (update_handler e w st req) = st
       \<and> snd (delete_handler e w st req) = st"
    by (auto simp: get_handler_def update_handler_def delete_handler_def)
  have "fst (get_handler e w st req) = error_json 404 (not_found e)
          \<and> fst (update_handler e w st req) = error_json 404 (not_found e)
          \<and> fst (delete_handler e w st req) = error_json 404 (not_found e)"
    if r: "rejects w 0 = None"
      and k: "coerce (keyType (model_of e)) (JStr (params_id req)) = Normal k" for k
  proof -
    from assms k have "\<forall>r \<in> set (rows (st e)). \<not> has_key e k r"
      by (simp add: answers_def)
    with r k show ?thesis by (simp add: absent_404 [where st = st and e = e])
  qed
  with unchanged show ?thesis by blast
qed

theorem not_found_writes_nothing_witness:
  "snd (get_handler User calm one_user (sample_request\<lparr>params_id := ''2''\<rparr>)) = one_user
   \<and> snd (update_handler User calm one_user (sample_request\<lparr>params_id := ''2''\<rparr>)) = one_user
   \<and> snd (delete_handler User calm one_user (sample_request\<lparr>params_id := ''2''\<rparr>)) = one_user
   \<and> coerce (keyType (model_of User)) (JStr ''2'') = Normal (JNum 2)
   \<and> fst (delete_handler User calm one_user (sample_request\<lparr>params_id := ''2''\<rparr>))
       = error_json 404 ''User not found''
   \<and> answers User ''01'' [(''UserID'', JNum 1), (''Name'', JStr ''A''),
                           (''Email'', JStr ''a@x.com'')]"
proof -
  have k: "coerce (keyType (model_of User))
             (JStr (params_id (sample_request\<lparr>params_id := ''2''\<rparr>))) = Normal (JNum 2)"
    by (simp add: int_of_text_def trim_def is_space_def digit_value_def in_int4_def)
  have a: "\<forall>r \<in> set (rows (one_user User)).
             \<not> answers User (params_id (sample_request\<lparr>params_id := ''2''\<rparr>)) r"
    using k by (simp add: one_user_def answers_def has_key_def)
  have r: "rejects calm 0 = None" by (simp add: calm_def)
  have z: "answers User ''01'' [(''UserID'', JNum 1), (''Name'', JStr ''A''),
                           (''Email'', JStr ''a@x.com'')]"
    by (simp add: answers_def has_key_def int_of_text_def trim_def is_space_def
        digit_value_def in_int4_def)
  from not_found_writes_nothing
         [where st = one_user and e = User and w = calm
            and req = "sample_request\<lparr>params_id := ''2''\<rparr>", OF a] r k z
  show ?thesis by simp
qed

end
